theory Spec2Isabelle
  imports Main "HOL-Library.Word"
begin

section \<open>The S-expression node of \<^verbatim>\<open>sexpression.h\<close>\<close>

text \<open>
  \<^verbatim>\<open>SExpression::Type\<close>: the four node kinds.
\<close>

datatype Type = List | Token | String | LineBreak

text \<open>
  \<^verbatim>\<open>FilePath\<close> is declared in \<^verbatim>\<open>filepath.h\<close>; the node only stores and
  copies it, so a path is its text here. A default-constructed \<^verbatim>\<open>FilePath()\<close> is the
  empty text.
\<close>

type_synonym FilePath = string

text \<open>
  The private data of the class: \<^verbatim>\<open>mType\<close>, \<^verbatim>\<open>mValue\<close> (a list name, a token or a
  string), \<^verbatim>\<open>mChildren\<close> and \<^verbatim>\<open>mFilePath\<close>. The class holds its children by value
  (\<^verbatim>\<open>QList<SExpression>\<close>), so a node is a finite tree.
\<close>

datatype SExpression =
  SExpression (mType: Type) (mValue: string) (mChildren: "SExpression list") (mFilePath: FilePath)

definition getFilePath :: "SExpression \<Rightarrow> FilePath" where
  "getFilePath n = mFilePath n"

definition getType :: "SExpression \<Rightarrow> Type" where
  "getType n = mType n"

definition isList :: "SExpression \<Rightarrow> bool" where
  "isList n = (mType n = List)"

definition isToken :: "SExpression \<Rightarrow> bool" where
  "isToken n = (mType n = Token)"

definition isString :: "SExpression \<Rightarrow> bool" where
  "isString n = (mType n = String)"

definition isLineBreak :: "SExpression \<Rightarrow> bool" where
  "isLineBreak n = (mType n = LineBreak)"

definition getChildren :: "SExpression \<Rightarrow> SExpression list" where
  "getChildren n = mChildren n"

section \<open>Exceptions\<close>

text \<open>
  Modelled from the spec: the exception classes are declared in \<^verbatim>\<open>exceptions.h\<close>, which
  is not part of the sources. The header throws \<^verbatim>\<open>RuntimeError\<close> with a message, and
  \<^verbatim>\<open>FileParseError\<close> with a file path, a line, a column, the invalid file content and a
  message (the umbrella error of the spec, carrying file path and offending text). Both
  are caught by \<^verbatim>\<open>catch (const Exception& e)\<close>, so both are values of \<open>Exception\<close>
  here. The first two constructor arguments (\<^verbatim>\<open>__FILE__\<close>, \<^verbatim>\<open>__LINE__\<close>: the throw
  site in the program text) are debugging data and are left out, and a message is the
  text given to \<^verbatim>\<open>tr\<close>, untranslated. A function that can throw returns
  \<open>Exception + 'a\<close>, \<open>Inl\<close> being the throw.
\<close>

datatype Exception =
    RuntimeError string
  | FileParseError FilePath int int string string

text \<open>
  Modelled from the spec: \<^verbatim>\<open>Exception::getMsg\<close>, also of \<^verbatim>\<open>exceptions.h\<close>, returns the
  message that the exception was built with.
\<close>

fun getMsg :: "Exception \<Rightarrow> string" where
  "getMsg (RuntimeError msg) = msg"
| "getMsg (FileParseError fp line col invalidFileContent msg) = msg"

text \<open>Whether an exception is of the class \<^verbatim>\<open>FileParseError\<close>.\<close>

fun isFileParseError :: "Exception \<Rightarrow> bool" where
  "isFileParseError (FileParseError fp line col invalidFileContent msg) = True"
| "isFileParseError _ = False"

section \<open>Typed accessors\<close>

text \<open>
  \<^verbatim>\<open>getValue<T>(throwIfEmpty)\<close>. The template parameter decides which overload of
  \<^verbatim>\<open>stringToObject\<close> is called; here that overload is the first argument and the
  node is the last. The two
  \<^verbatim>\<open>throw\<close> statements and the call of \<^verbatim>\<open>stringToObject\<close> are all inside the
  \<^verbatim>\<open>try\<close> block, so the handler sees each of their exceptions and throws a
  \<^verbatim>\<open>FileParseError\<close> built from \<^verbatim>\<open>mFilePath\<close>, \<^verbatim>\<open>-1\<close>, \<^verbatim>\<open>-1\<close>, \<^verbatim>\<open>mValue\<close> and
  the message of the caught exception.
\<close>

definition getValue ::
  "(string \<Rightarrow> Exception + 'a) \<Rightarrow> bool \<Rightarrow> SExpression \<Rightarrow> Exception + 'a" where
  "getValue stringToObject throwIfEmpty n =
     (case (if \<not> isToken n \<and> \<not> isString n
            then Inl (RuntimeError ''Node is not a token or string.'')
            else if mValue n = [] \<and> throwIfEmpty
            then Inl (RuntimeError ''Node value is empty.'')
            else stringToObject (mValue n))
      of Inl e \<Rightarrow> Inl (FileParseError (mFilePath n) (- 1) (- 1) (mValue n) (getMsg e))
       | Inr v \<Rightarrow> Inr v)"

text \<open>
  \<^verbatim>\<open>getValueOfFirstChild<T>(throwIfEmpty)\<close>: the \<^verbatim>\<open>FileParseError\<close> for a node without
  children is thrown directly, with \<^verbatim>\<open>QString()\<close> as invalid content.
\<close>

definition getValueOfFirstChild ::
  "(string \<Rightarrow> Exception + 'a) \<Rightarrow> bool \<Rightarrow> SExpression \<Rightarrow> Exception + 'a" where
  "getValueOfFirstChild stringToObject throwIfEmpty n =
     (if length (mChildren n) < 1
      then Inl (FileParseError (mFilePath n) (- 1) (- 1) [] ''Node does not have children.'')
      else getValue stringToObject throwIfEmpty (mChildren n ! 0))"

section \<open>Serialization and deserialization methods\<close>

definition objectToString_QString :: "string \<Rightarrow> string" where
  "objectToString_QString obj = obj"

definition objectToString_bool :: "bool \<Rightarrow> string" where
  "objectToString_bool obj = (if obj then ''true'' else ''false'')"

definition stringToObject_QString :: "string \<Rightarrow> Exception + string" where
  "stringToObject_QString str = Inr str"

definition stringToObject_bool :: "string \<Rightarrow> Exception + bool" where
  "stringToObject_bool str =
     (if str = ''true'' then Inr True
      else if str = ''false'' then Inr False
      else Inl (RuntimeError ''Not a valid boolean.''))"

text \<open>
  The overloads for \<^verbatim>\<open>int\<close> call \<^verbatim>\<open>QString::number\<close> and \<^verbatim>\<open>QString::toInt\<close>, which
  belong to the Qt library and are not part of the sources. The spec calls the text of
  an integer its canonical base-10 text and lets non-numeric text fail; the definitions
  up to \<open>QString_toInt\<close> spell that out.
\<close>

text \<open>
  Modelled from the spec: white space, which the spec does not enumerate: the space,
  the horizontal tab, the line feed, the vertical tab, the form feed and the carriage
  return.
\<close>

definition isSpace :: "char \<Rightarrow> bool" where
  "isSpace c =
     (c = CHR '' '' \<or> c = CHR 0x09 \<or> c = CHR 0x0A \<or> c = CHR 0x0B \<or> c = CHR 0x0C \<or> c = CHR 0x0D)"

text \<open>
  Modelled from the spec: the base-10 digits are the characters \<^verbatim>\<open>0\<close> (code 48) to
  \<^verbatim>\<open>9\<close> (code 57).
\<close>

definition isDigit :: "char \<Rightarrow> bool" where
  "isDigit c = (48 \<le> (of_char c :: nat) \<and> (of_char c :: nat) \<le> 57)"

text \<open>Modelled from the spec: the value of a base-10 digit.\<close>

definition digitValue :: "char \<Rightarrow> nat" where
  "digitValue c = of_char c - 48"

text \<open>Modelled from the spec: the base-10 digit of a value below ten.\<close>

definition digitChar :: "nat \<Rightarrow> char" where
  "digitChar d = char_of (48 + d)"

text \<open>
  Modelled from the spec: the canonical base-10 text of a natural number, most
  significant digit first and without leading zeros (the text of 0 is \<^verbatim>\<open>0\<close>).
\<close>

fun decimal :: "nat \<Rightarrow> string" where
  "decimal n = (if n < 10 then [digitChar n] else decimal (n div 10) @ [digitChar (n mod 10)])"

declare decimal.simps [simp del]

text \<open>
  Modelled from the spec: \<^verbatim>\<open>QString::number(int)\<close> of the Qt library, base 10: a minus
  sign for a negative number, then the digits of its magnitude.
\<close>

definition QString_number :: "int \<Rightarrow> string" where
  "QString_number n = (if n < 0 then CHR ''-'' # decimal (nat (- n)) else decimal (nat n))"

text \<open>
  Modelled from the spec: the value of a run of decimal digits, read from the left;
  \<open>None\<close> when a character is not a digit.
\<close>

fun digitsValue :: "nat \<Rightarrow> string \<Rightarrow> nat option" where
  "digitsValue acc [] = Some acc"
| "digitsValue acc (c # cs) =
     (if isDigit c then digitsValue (10 * acc + digitValue c) cs else None)"

text \<open>
  Modelled from the spec: \<^verbatim>\<open>QString::trimmed\<close> of the Qt library: the text without
  the white space at its two ends.
\<close>

definition trimmed :: "string \<Rightarrow> string" where
  "trimmed s = rev (dropWhile isSpace (rev (dropWhile isSpace s)))"

text \<open>
  Modelled from the spec: the grammar of an integer text: an optional sign, then at
  least one digit and nothing else. \<open>None\<close> is non-numeric text.
\<close>

definition parseInteger :: "string \<Rightarrow> int option" where
  "parseInteger t =
     (case t of
        [] \<Rightarrow> None
      | c # cs \<Rightarrow>
          if c = CHR ''-'' then
            (if cs = [] then None else map_option (\<lambda>m. - int m) (digitsValue 0 cs))
          else if c = CHR ''+'' then
            (if cs = [] then None else map_option int (digitsValue 0 cs))
          else map_option int (digitsValue 0 t))"

text \<open>
  Modelled from the spec: \<^verbatim>\<open>QString::toInt(&ok)\<close> of the Qt library, base 10. White
  space at both ends is skipped, what remains must be an integer text, and the number
  must fit the 32-bit \<^verbatim>\<open>int\<close>. Otherwise \<^verbatim>\<open>ok\<close> is false and the value is 0. The
  result is the pair of the value and \<^verbatim>\<open>ok\<close>.
\<close>

definition QString_toInt :: "string \<Rightarrow> 32 word \<times> bool" where
  "QString_toInt s =
     (case parseInteger (trimmed s) of
        None \<Rightarrow> (0, False)
      | Some v \<Rightarrow>
          if - (2 ^ 31) \<le> v \<and> v \<le> 2 ^ 31 - 1 then (word_of_int v, True) else (0, False))"

text \<open>
  \<^verbatim>\<open>objectToString<int>\<close> and \<^verbatim>\<open>stringToObject<int>\<close>, on the 32-bit \<^verbatim>\<open>int\<close> read
  as a signed number.
\<close>

definition objectToString_int :: "32 word \<Rightarrow> string" where
  "objectToString_int obj = QString_number (sint obj)"

definition stringToObject_int :: "string \<Rightarrow> Exception + 32 word" where
  "stringToObject_int str =
     (let (value, ok) = QString_toInt str
      in if ok then Inr value else Inl (RuntimeError ''Not a valid integer.''))"

text \<open>
  The spec's wording of "canonical base-10 text" of an integer \<open>v\<close>, as a predicate on
  texts: a minus sign exactly when \<open>v\<close> is negative, then at least one digit and only
  digits, no leading zero except for the text \<^verbatim>\<open>0\<close> itself, and the digits denote the
  magnitude of \<open>v\<close>.
\<close>

definition isCanonicalBase10 :: "int \<Rightarrow> string \<Rightarrow> bool" where
  "isCanonicalBase10 v s =
     (let ds = (if v < 0 then drop 1 s else s)
      in (v < 0 \<longrightarrow> take 1 s = ''-'') \<and> ds \<noteq> [] \<and> list_all isDigit ds \<and>
         (hd ds = CHR ''0'' \<longrightarrow> ds = ''0'') \<and> digitsValue 0 ds = Some (nat \<bar>v\<bar>))"

text \<open>
  The spec's wording of a text that is a valid integer, as a predicate on texts and
  without reference to the reader above. Between white space the text holds one run
  of other characters, the body; behind an optional sign the body holds at least one
  digit and only digits; and the number that sign and digits denote fits the 32-bit
  \<^verbatim>\<open>int\<close>.
\<close>

definition integerTextBody :: "string \<Rightarrow> string" where
  "integerTextBody s = takeWhile (\<lambda>c. \<not> isSpace c) (dropWhile isSpace s)"

definition integerTextDigits :: "string \<Rightarrow> string" where
  "integerTextDigits s =
     (let b = integerTextBody s
      in if take 1 b = ''-'' \<or> take 1 b = ''+'' then drop 1 b else b)"

definition integerTextValue :: "string \<Rightarrow> int" where
  "integerTextValue s =
     (let m = int (foldl (\<lambda>a c. 10 * a + digitValue c) 0 (integerTextDigits s))
      in if take 1 (integerTextBody s) = ''-'' then - m else m)"

definition isValidInteger :: "string \<Rightarrow> bool" where
  "isValidInteger s =
     (list_all isSpace (dropWhile (\<lambda>c. \<not> isSpace c) (dropWhile isSpace s)) \<and>
      integerTextDigits s \<noteq> [] \<and> list_all isDigit (integerTextDigits s) \<and>
      - (2 ^ 31) \<le> integerTextValue s \<and> integerTextValue s \<le> 2 ^ 31 - 1)"

text \<open>
  The overloads for \<^verbatim>\<open>tl::optional<T>\<close>. \<open>T\<close> brings three things of its own: the
  method \<^verbatim>\<open>serializeToString\<close>, the static method \<^verbatim>\<open>deserializeFromString\<close> (which can
  throw) and the static text \<^verbatim>\<open>sRepresentationOfNull\<close>. They are the leading arguments
  here; an absent optional is \<open>None\<close>.
\<close>

definition objectToString_optional :: "('a \<Rightarrow> string) \<Rightarrow> string \<Rightarrow> 'a option \<Rightarrow> string" where
  "objectToString_optional serializeToString sRepresentationOfNull obj =
     (case obj of Some v \<Rightarrow> serializeToString v | None \<Rightarrow> sRepresentationOfNull)"

definition stringToObject_optional ::
  "(string \<Rightarrow> Exception + 'a) \<Rightarrow> string \<Rightarrow> string \<Rightarrow> Exception + 'a option" where
  "stringToObject_optional deserializeFromString sRepresentationOfNull str =
     (if str = sRepresentationOfNull then Inr None
      else (case deserializeFromString str of Inl e \<Rightarrow> Inl e | Inr v \<Rightarrow> Inr (Some v)))"

section \<open>Building a tree\<close>

text \<open>
  The factory operations \<^verbatim>\<open>createList\<close>, \<^verbatim>\<open>createToken\<close>, \<^verbatim>\<open>createString\<close> and
  \<^verbatim>\<open>createLineBreak\<close> are declared in the header, their bodies are not part of it. A
  created node has the given kind and value, no children and a default-constructed
  file path (only the parser stamps a path on a node).
\<close>

text \<open>Modelled from the spec: \<^verbatim>\<open>createList(name)\<close>, a List without children.\<close>

definition createList :: "string \<Rightarrow> SExpression" where
  "createList name = SExpression List name [] []"

text \<open>Modelled from the spec: \<^verbatim>\<open>createToken(token)\<close>, a Token with the given text.\<close>

definition createToken :: "string \<Rightarrow> SExpression" where
  "createToken token = SExpression Token token [] []"

text \<open>Modelled from the spec: \<^verbatim>\<open>createString(string)\<close>, a String with the given text.\<close>

definition createString :: "string \<Rightarrow> SExpression" where
  "createString string = SExpression String string [] []"

text \<open>Modelled from the spec: \<^verbatim>\<open>createLineBreak()\<close>, a LineBreak marker without content.\<close>

definition createLineBreak :: SExpression where
  "createLineBreak = SExpression LineBreak [] [] []"

text \<open>
  The append methods change the node in place and return a C++ reference, which
  designates the node itself or a node below it. A method is modelled by the updated
  node together with the returned reference; a reference is the list of child indices
  that leads from the node to the designated one (the empty list is the node itself),
  and \<open>nodeAt\<close> follows it.
\<close>

type_synonym NodeRef = "nat list"


text \<open>
  Modelled from the spec: \<^verbatim>\<open>appendChild(child, linebreak)\<close> is declared in the header,
  its body is not part of it. Only List nodes have children (an invariant of the data
  model), so a node of another kind is the wrong node kind for this operation: it
  fails with the structure error of the spec, a \<^verbatim>\<open>RuntimeError\<close> here (the spec does
  not give the wording of its message), and nothing is appended. On a List the child
  is appended to the children, and a forced break inserts a LineBreak node
  immediately after the appended child. The spec does not say which node the returned
  reference designates; \<^verbatim>\<open>appendToken\<close> and \<^verbatim>\<open>appendString\<close> drop it, so only the
  updated node is returned here.
\<close>

definition appendChild :: "SExpression \<Rightarrow> bool \<Rightarrow> SExpression \<Rightarrow> Exception + SExpression" where
  "appendChild child linebreak n =
     (if isList n
      then Inr (SExpression (mType n) (mValue n)
                  (mChildren n @ [child] @ (if linebreak then [createLineBreak] else []))
                  (mFilePath n))
      else Inl (RuntimeError ''Node is not a list.''))"

text \<open>
  Modelled from the spec: \<^verbatim>\<open>appendList(name, linebreak)\<close> is declared in the header,
  its body is not part of it. It appends a new list of the given name and returns a
  reference to the new child, for chaining (the header's \<^verbatim>\<open>appendTokenChild\<close> puts its
  token into the list that \<^verbatim>\<open>appendList\<close> returns).
\<close>

definition appendList ::
  "string \<Rightarrow> bool \<Rightarrow> SExpression \<Rightarrow> Exception + SExpression \<times> NodeRef" where
  "appendList name linebreak n =
     (case appendChild (createList name) linebreak n of
        Inl e \<Rightarrow> Inl e
      | Inr n' \<Rightarrow> Inr (n', [length (mChildren n)]))"

text \<open>
  \<^verbatim>\<open>appendToken<T>(token)\<close>, from the header: the serialized value becomes a Token
  child, appended without a line break, and \<^verbatim>\<open>*this\<close> is returned; an exception of
  \<^verbatim>\<open>appendChild\<close> passes through. The overload of \<^verbatim>\<open>objectToString\<close> for \<open>T\<close> is
  the first argument.
\<close>

definition appendToken ::
  "('a \<Rightarrow> string) \<Rightarrow> 'a \<Rightarrow> SExpression \<Rightarrow> Exception + SExpression \<times> NodeRef" where
  "appendToken objectToString token n =
     (case appendChild (createToken (objectToString token)) False n of
        Inl e \<Rightarrow> Inl e
      | Inr n' \<Rightarrow> Inr (n', []))"

text \<open>
  \<^verbatim>\<open>appendString<T>(string)\<close>, from the header: as \<^verbatim>\<open>appendToken\<close>, with a String
  child.
\<close>

definition appendString ::
  "('a \<Rightarrow> string) \<Rightarrow> 'a \<Rightarrow> SExpression \<Rightarrow> Exception + SExpression \<times> NodeRef" where
  "appendString objectToString string n =
     (case appendChild (createString (objectToString string)) False n of
        Inl e \<Rightarrow> Inl e
      | Inr n' \<Rightarrow> Inr (n', []))"

text \<open>
  Modelled from the spec: \<^verbatim>\<open>removeLineBreaks()\<close> is declared in the header, its body is
  not part of it. It strips the LineBreak children, recursively.
\<close>

fun removeLineBreaks :: "SExpression \<Rightarrow> SExpression" where
  "removeLineBreaks (SExpression t v cs fp) =
     SExpression t v (map removeLineBreaks (filter (\<lambda>c. \<not> isLineBreak c) cs)) fp"

text \<open>
  Modelled from the spec: the header declares no comparison of nodes. Node equality is
  structural: kind, value and children, the file path excluded.
\<close>

fun deepEquals :: "SExpression \<Rightarrow> SExpression \<Rightarrow> bool" where
  "deepEquals (SExpression t v cs fp) (SExpression t' v' cs' fp') =
     (t = t' \<and> v = v' \<and> list_all2 deepEquals cs cs')"

section \<open>The textual renderer\<close>

text \<open>
  Modelled from the spec: the characters of a bare token: every character but white
  space, the parentheses and the double quote (\<open>CHR 0x22\<close>). The spec leaves the exact
  character set open and proposes this one.
\<close>

definition isTokenChar :: "char \<Rightarrow> bool" where
  "isTokenChar c = (\<not> isSpace c \<and> c \<noteq> CHR ''('' \<and> c \<noteq> CHR '')'' \<and> c \<noteq> CHR 0x22)"

text \<open>
  Modelled from the spec: \<^verbatim>\<open>isValidToken\<close> is declared in the header, its body is not
  part of it. A token is a non-empty bare run of token characters.
\<close>

definition isValidToken :: "string \<Rightarrow> bool" where
  "isValidToken token = (token \<noteq> [] \<and> list_all isTokenChar token)"

text \<open>
  Modelled from the spec: \<^verbatim>\<open>isValidListName\<close> is declared in the header, its body is
  not part of it. A list name is non-empty and of a restricted character set; it is
  read back as the first bare token of its form, so it obeys the rule of a token.
\<close>

definition isValidListName :: "string \<Rightarrow> bool" where
  "isValidListName name = (name \<noteq> [] \<and> list_all isTokenChar name)"

text \<open>
  Modelled from the spec: the control characters, which the spec does not enumerate:
  the characters with a code below 32, and the delete character (code 127).
\<close>

definition isControl :: "char \<Rightarrow> bool" where
  "isControl c = ((of_char c :: nat) < 32 \<or> (of_char c :: nat) = 127)"

text \<open>
  Modelled from the spec: the hexadecimal digit of a value below sixteen, \<^verbatim>\<open>0\<close> to
  \<^verbatim>\<open>9\<close> and \<^verbatim>\<open>a\<close> (code 97) to \<^verbatim>\<open>f\<close>.
\<close>

definition hexDigit :: "nat \<Rightarrow> char" where
  "hexDigit d = (if d < 10 then char_of (48 + d) else char_of (87 + d))"

text \<open>
  Modelled from the spec: the value of a hexadecimal digit; \<open>None\<close> for any other
  character.
\<close>

definition hexValue :: "char \<Rightarrow> nat option" where
  "hexValue c =
     (if isDigit c then Some (of_char c - 48)
      else if 97 \<le> (of_char c :: nat) \<and> (of_char c :: nat) \<le> 102 then Some (of_char c - 87)
      else None)"

text \<open>
  Modelled from the spec: \<^verbatim>\<open>escapeString\<close> is declared in the header, its body is not
  part of it. Quotes, backslashes and control characters are escaped. The text grammar
  names the backslash escapes of the double quote (\<open>CHR 0x22\<close>), of the backslash
  (\<open>CHR 0x5C\<close>) and of the newline (\<open>CHR 0x0A\<close>, written backslash-n); the spec leaves
  the rest of the escape set open, and every other control character is written here
  as backslash-x followed by the two hexadecimal digits of its code. Every other
  character stands for itself.
\<close>

fun escapeString :: "string \<Rightarrow> string" where
  "escapeString [] = []"
| "escapeString (c # cs) =
     (if c = CHR 0x22 then [CHR 0x5C, CHR 0x22]
      else if c = CHR 0x5C then [CHR 0x5C, CHR 0x5C]
      else if c = CHR 0x0A then [CHR 0x5C, CHR ''n'']
      else if isControl c then
        [CHR 0x5C, CHR ''x'', hexDigit (of_char c div 16), hexDigit (of_char c mod 16)]
      else [c]) @ escapeString cs"

text \<open>
  Modelled from the spec: the LineBreak markers seen since the last child that has
  text (none, one, several), while the children of a list are laid out in \<^verbatim>\<open>toString\<close>,
  whose body is not part of the header.
\<close>

datatype Pending = NoBreak | OneBreak | ManyBreaks

text \<open>
  Modelled from the spec: what the pending markers put before the next text. A
  LineBreak ends the line, and what follows starts on a new line, indented one unit
  (one space) per nesting depth; a run of several LineBreak markers is a single blank
  line followed by that same indentation.
\<close>

fun lineStart :: "nat \<Rightarrow> Pending \<Rightarrow> string" where
  "lineStart indent NoBreak = []"
| "lineStart indent OneBreak = CHR 0x0A # replicate (Suc indent) CHR '' ''"
| "lineStart indent ManyBreaks = CHR 0x0A # CHR 0x0A # replicate (Suc indent) CHR '' ''"

text \<open>
  Modelled from the spec: the layout of the children of a list. Each child comes as a
  pair: whether it is a LineBreak, and its own text. Without a LineBreak the children
  follow the name on one line, each after one space; after a LineBreak a child starts
  its line.
\<close>

fun layout :: "nat \<Rightarrow> Pending \<Rightarrow> (bool \<times> string) list \<Rightarrow> string" where
  "layout indent p [] = lineStart indent p"
| "layout indent p ((isBreak, text) # items) =
     (if isBreak then layout indent (if p = NoBreak then OneBreak else ManyBreaks) items
      else (if p = NoBreak then '' '' else lineStart indent p) @ text
             @ layout indent NoBreak items)"

text \<open>
  Modelled from the spec: \<^verbatim>\<open>toString(indent)\<close> is declared in the header, its body is
  not part of it. A List renders as an opening parenthesis, its name, its children and
  a closing parenthesis; a Token renders verbatim (the callers validate its characters);
  a String renders between double quotes, escaped; a LineBreak renders as nothing and
  only affects the layout of its parent.
\<close>

fun toString :: "nat \<Rightarrow> SExpression \<Rightarrow> string" where
  "toString indent (SExpression t v cs fp) =
     (case t of
        List \<Rightarrow>
          ''('' @ v @ layout indent NoBreak (map (\<lambda>c. (isLineBreak c, toString (Suc indent) c)) cs)
            @ '')''
      | Token \<Rightarrow> v
      | String \<Rightarrow> CHR 0x22 # escapeString v @ [CHR 0x22]
      | LineBreak \<Rightarrow> [])"

section \<open>The parser adapter\<close>

text \<open>
  Modelled from the spec: \<^verbatim>\<open>sexpresso::Sexp\<close> is only forward-declared in the header.
  It is the generic tree of the external parser: a leaf with the parser's quoting flag
  and its text, or a parenthesized form with its elements.
\<close>

datatype Sexp = Leaf bool string | Form "Sexp list"

text \<open>
  The external generic-expression parser (balanced parentheses, tokenization,
  quoted-string extraction) is not part of the sources. It is modelled as a scanner
  that reads the text once, from the left, with \<open>None\<close> as its report of malformed
  input.
\<close>

text \<open>
  Modelled from the spec: where the scanner is: between atoms, inside a bare token,
  inside a quoted string, just after a backslash inside a quoted string, or at the
  first or the second hexadecimal digit of an escaped code; with the text of the atom
  read so far (and the value of the first digit).
\<close>

datatype Mode =
    Idle
  | InToken string
  | InString string
  | InEscape string
  | InHex string
  | InHexLow string nat

text \<open>
  Modelled from the spec: the state of the scanner: its mode, the elements of the
  innermost open form read so far (last one first) and, below, those of the enclosing
  forms.
\<close>

type_synonym ScanState = "Mode \<times> Sexp list \<times> Sexp list list"

text \<open>
  Modelled from the spec: one character between atoms. White space separates, a
  parenthesis opens or closes a form (closing at top level is unbalanced), a double
  quote starts a string and any other character starts a bare token.
\<close>

definition stepIdle :: "char \<Rightarrow> Sexp list \<Rightarrow> Sexp list list \<Rightarrow> ScanState option" where
  "stepIdle c cur st =
     (if isSpace c then Some (Idle, cur, st)
      else if c = CHR ''('' then Some (Idle, [], cur # st)
      else if c = CHR '')'' then
        (case st of [] \<Rightarrow> None | outer # st' \<Rightarrow> Some (Idle, Form (rev cur) # outer, st'))
      else if c = CHR 0x22 then Some (InString [], cur, st)
      else Some (InToken [c], cur, st))"

text \<open>
  Modelled from the spec: one character in any mode. A bare token is a run of token
  characters and ends before the first other character; a quoted string ends at the
  first double quote that is not escaped. After a backslash, a double quote and a
  backslash stand for themselves, \<^verbatim>\<open>n\<close> stands for a newline and \<^verbatim>\<open>x\<close> announces
  the two hexadecimal digits of a character code; any other escape is malformed.
\<close>

fun step :: "char \<Rightarrow> ScanState \<Rightarrow> ScanState option" where
  "step c (Idle, cur, st) = stepIdle c cur st"
| "step c (InToken t, cur, st) =
     (if isTokenChar c then Some (InToken (t @ [c]), cur, st)
      else stepIdle c (Leaf False t # cur) st)"
| "step c (InString s, cur, st) =
     (if c = CHR 0x22 then Some (Idle, Leaf True s # cur, st)
      else if c = CHR 0x5C then Some (InEscape s, cur, st)
      else Some (InString (s @ [c]), cur, st))"
| "step c (InEscape s, cur, st) =
     (if c = CHR 0x22 \<or> c = CHR 0x5C then Some (InString (s @ [c]), cur, st)
      else if c = CHR ''n'' then Some (InString (s @ [CHR 0x0A]), cur, st)
      else if c = CHR ''x'' then Some (InHex s, cur, st)
      else None)"
| "step c (InHex s, cur, st) =
     (case hexValue c of None \<Rightarrow> None | Some h \<Rightarrow> Some (InHexLow s h, cur, st))"
| "step c (InHexLow s h, cur, st) =
     (case hexValue c of
        None \<Rightarrow> None
      | Some l \<Rightarrow> Some (InString (s @ [char_of (16 * h + l)]), cur, st))"

text \<open>Modelled from the spec: the scanner on a text, character by character.\<close>

fun scan :: "ScanState \<Rightarrow> string \<Rightarrow> ScanState option" where
  "scan s [] = Some s"
| "scan s (c # cs) = (case step c s of None \<Rightarrow> None | Some s' \<Rightarrow> scan s' cs)"

text \<open>
  Modelled from the spec: the end of the text. A bare token may end with the text; an
  open string is unterminated and an open form is unbalanced.
\<close>

fun finish :: "ScanState \<Rightarrow> Sexp list option" where
  "finish (Idle, cur, []) = Some (rev cur)"
| "finish (InToken t, cur, []) = Some (rev (Leaf False t # cur))"
| "finish _ = None"

text \<open>Modelled from the spec: the scanner from a given state to the end of the text.\<close>

definition scanFrom :: "ScanState \<Rightarrow> string \<Rightarrow> Sexp list option" where
  "scanFrom s str = (case scan s str of None \<Rightarrow> None | Some s' \<Rightarrow> finish s')"

text \<open>
  Modelled from the spec: the external parser on a text; it yields the top-level
  elements of the text.
\<close>

definition sexpresso_parse :: "string \<Rightarrow> Sexp list option" where
  "sexpresso_parse str = scanFrom (Idle, [], []) str"

text \<open>
  Modelled from the spec: the private constructor
  \<^verbatim>\<open>SExpression(sexpresso::Sexp&, const FilePath&)\<close> is declared in the header, its body
  is not part of it. It classifies the generic tree: a leaf is a String or a Token by
  the quoting flag; a parenthesized form is a List whose first leaf is the name and
  whose remaining elements are the children; every node is stamped with the file path.
  A form without a first leaf (the empty list, or one that starts with a form) fails.
\<close>

fun fromSexp :: "FilePath \<Rightarrow> Sexp \<Rightarrow> SExpression option"
  and fromSexps :: "FilePath \<Rightarrow> Sexp list \<Rightarrow> SExpression list option" where
  "fromSexp filePath (Leaf quoted text) =
     Some (SExpression (if quoted then String else Token) text [] filePath)"
| "fromSexp filePath (Form []) = None"
| "fromSexp filePath (Form (Leaf quoted name # elements)) =
     (case fromSexps filePath elements of
        None \<Rightarrow> None
      | Some children \<Rightarrow> Some (SExpression List name children filePath))"
| "fromSexp filePath (Form (Form xs # elements)) = None"
| "fromSexps filePath [] = Some []"
| "fromSexps filePath (x # xs) =
     (case fromSexp filePath x of
        None \<Rightarrow> None
      | Some n \<Rightarrow>
          (case fromSexps filePath xs of None \<Rightarrow> None | Some ns \<Rightarrow> Some (n # ns)))"

text \<open>
  Modelled from the spec: \<^verbatim>\<open>parse(str, filePath)\<close> is declared in the header, its body
  is not part of it. The text must hold one top-level element, the root; malformed input
  fails with a \<^verbatim>\<open>FileParseError\<close> for the file. The spec does not give the wording of
  its message.
\<close>

definition parse :: "string \<Rightarrow> FilePath \<Rightarrow> Exception + SExpression" where
  "parse str filePath =
     (case sexpresso_parse str of
        Some [root] \<Rightarrow>
          (case fromSexp filePath root of
             Some n \<Rightarrow> Inr n
           | None \<Rightarrow> Inl (FileParseError filePath (- 1) (- 1) [] ''Invalid S-Expression.''))
      | _ \<Rightarrow> Inl (FileParseError filePath (- 1) (- 1) [] ''Invalid S-Expression.''))"

section \<open>Well-formed trees\<close>

text \<open>
  The invariants of the data model, as a predicate on trees: only List nodes have
  children, a List has a valid name and a Token a valid text.
\<close>

fun isWellFormed :: "SExpression \<Rightarrow> bool" where
  "isWellFormed (SExpression t v cs fp) =
     (case t of
        List \<Rightarrow> isValidListName v \<and> list_all isWellFormed cs
      | Token \<Rightarrow> isValidToken v \<and> cs = []
      | String \<Rightarrow> cs = []
      | LineBreak \<Rightarrow> cs = [])"

text \<open>A tree built only from List, Token and String nodes.\<close>

fun hasNoLineBreak :: "SExpression \<Rightarrow> bool" where
  "hasNoLineBreak (SExpression t v cs fp) = (t \<noteq> LineBreak \<and> list_all hasNoLineBreak cs)"

text \<open>
  Three notions for the proofs about the parser: the tree with every node stamped with
  a file path; the generic tree that a node without LineBreak markers stands for; and
  the texts at which a bare token ends (the end of the text, or a character that is
  not a token character).
\<close>

fun withFilePath :: "FilePath \<Rightarrow> SExpression \<Rightarrow> SExpression" where
  "withFilePath filePath (SExpression t v cs fp) =
     SExpression t v (map (withFilePath filePath) cs) filePath"

fun toSexp :: "SExpression \<Rightarrow> Sexp" where
  "toSexp (SExpression t v cs fp) =
     (case t of
        List \<Rightarrow> Form (Leaf False v # map toSexp cs)
      | String \<Rightarrow> Leaf True v
      | _ \<Rightarrow> Leaf False v)"

definition delimStart :: "string \<Rightarrow> bool" where
  "delimStart rest = (case rest of [] \<Rightarrow> True | c # cs \<Rightarrow> \<not> isTokenChar c)"

section \<open>Properties of the typed accessors\<close>

lemma getValue_error_wrapped:
  "getValue stringToObject throwIfEmpty n = Inl e \<Longrightarrow> isFileParseError e"
  by (auto simp: getValue_def split: if_splits sum.splits)

text \<open>
  C2, as the code has it. A node that is neither a Token nor a String makes \<^verbatim>\<open>getValue\<close>
  throw, but the \<^verbatim>\<open>RuntimeError\<close> "Node is not a token or string." is thrown inside
  the \<^verbatim>\<open>try\<close> block: the handler catches it and the caller receives a
  \<^verbatim>\<open>FileParseError\<close> that carries the node's file path, its value and that message.
\<close>

theorem getValue_not_token_or_string:
  "\<not> isToken n \<Longrightarrow> \<not> isString n \<Longrightarrow>
   getValue stringToObject throwIfEmpty n =
     Inl (FileParseError (mFilePath n) (- 1) (- 1) (mValue n) ''Node is not a token or string.'')"
  by (simp add: getValue_def)

theorem getValue_not_token_or_string_witness:
  "\<not> isToken (SExpression LineBreak [] [] ''board.lp'') \<and>
   \<not> isString (SExpression LineBreak [] [] ''board.lp'') \<and>
   getValue stringToObject_bool True (SExpression LineBreak [] [] ''board.lp'') =
     Inl (FileParseError ''board.lp'' (- 1) (- 1) [] ''Node is not a token or string.'')"
  using getValue_not_token_or_string
    [of "SExpression LineBreak [] [] ''board.lp''" stringToObject_bool True]
  by (simp add: isToken_def isString_def)

text \<open>
  C2, as the claim states it, fails: on the List node \<^verbatim>\<open>(name)\<close> parsed from
  \<^verbatim>\<open>board.lp\<close> the caller does not receive the \<^verbatim>\<open>RuntimeError\<close> of the check but a
  \<^verbatim>\<open>FileParseError\<close> wrapped around its message.
\<close>

theorem getValue_not_token_or_string_counterexample:
  "getValue stringToObject_bool False (SExpression List ''name'' [] ''board.lp'') \<noteq>
     Inl (RuntimeError ''Node is not a token or string.'') \<and>
   getValue stringToObject_bool False (SExpression List ''name'' [] ''board.lp'') =
     Inl (FileParseError ''board.lp'' (- 1) (- 1) ''name'' ''Node is not a token or string.'')"
  by (simp add: getValue_def isToken_def isString_def)

text \<open>
  C3: on a Token or String node whose text the deserializer of \<open>T\<close> rejects with an
  exception \<open>e\<close>, \<^verbatim>\<open>getValue<T>\<close> throws a \<^verbatim>\<open>FileParseError\<close> holding the node's
  file path and its raw text; the message is that of \<open>e\<close> (or the one of the empty-value
  check, when that check fires first). So the caller never receives \<open>e\<close> itself.
\<close>

theorem getValue_format_error:
  "isToken n \<or> isString n \<Longrightarrow> stringToObject (mValue n) = Inl e \<Longrightarrow>
   getValue stringToObject throwIfEmpty n =
     Inl (FileParseError (mFilePath n) (- 1) (- 1) (mValue n)
            (if mValue n = [] \<and> throwIfEmpty then ''Node value is empty.'' else getMsg e))"
  by (auto simp: getValue_def)

theorem getValue_format_error_witness:
  "(isToken (SExpression Token ''maybe'' [] ''board.lp'') \<or>
    isString (SExpression Token ''maybe'' [] ''board.lp'')) \<and>
   stringToObject_bool ''maybe'' = Inl (RuntimeError ''Not a valid boolean.'') \<and>
   getValue stringToObject_bool True (SExpression Token ''maybe'' [] ''board.lp'') =
     Inl (FileParseError ''board.lp'' (- 1) (- 1) ''maybe'' ''Not a valid boolean.'')"
  using getValue_format_error
    [of "SExpression Token ''maybe'' [] ''board.lp''" stringToObject_bool
        "RuntimeError ''Not a valid boolean.''" True]
  by (simp add: isToken_def stringToObject_bool_def)

text \<open>
  C4, as the code has it: on a Token whose text is empty, \<^verbatim>\<open>getValue<QString>(true)\<close>
  fails with a \<^verbatim>\<open>FileParseError\<close> that carries the node's file path, the empty text
  and the message "Node value is empty." (the \<^verbatim>\<open>RuntimeError\<close> of the empty-value check
  is thrown inside the \<^verbatim>\<open>try\<close> block and re-wrapped by the handler), and
  \<^verbatim>\<open>getValue<QString>(false)\<close> returns the empty string.
\<close>

theorem getValue_QString_empty_token:
  "isToken n \<Longrightarrow> mValue n = [] \<Longrightarrow>
   getValue stringToObject_QString True n =
     Inl (FileParseError (mFilePath n) (- 1) (- 1) [] ''Node value is empty.'') \<and>
   getValue stringToObject_QString False n = Inr []"
  by (simp add: getValue_def stringToObject_QString_def)

theorem getValue_QString_empty_token_witness:
  "isToken (SExpression Token [] [] ''sym.lp'') \<and>
   mValue (SExpression Token [] [] ''sym.lp'') = [] \<and>
   getValue stringToObject_QString True (SExpression Token [] [] ''sym.lp'') =
     Inl (FileParseError ''sym.lp'' (- 1) (- 1) [] ''Node value is empty.'') \<and>
   getValue stringToObject_QString False (SExpression Token [] [] ''sym.lp'') = Inr []"
  using getValue_QString_empty_token [of "SExpression Token [] [] ''sym.lp''"]
  by (simp add: isToken_def)

text \<open>
  C4, as the claim states it, fails: on the empty Token of \<^verbatim>\<open>sym.lp\<close> the caller does
  not receive the empty-value error itself (the \<^verbatim>\<open>RuntimeError\<close> "Node value is
  empty.") but a \<^verbatim>\<open>FileParseError\<close> wrapped around its message.
\<close>

theorem getValue_QString_empty_token_counterexample:
  "getValue stringToObject_QString True (SExpression Token [] [] ''sym.lp'') \<noteq>
     Inl (RuntimeError ''Node value is empty.'') \<and>
   getValue stringToObject_QString True (SExpression Token [] [] ''sym.lp'') =
     Inl (FileParseError ''sym.lp'' (- 1) (- 1) [] ''Node value is empty.'') \<and>
   isFileParseError (FileParseError ''sym.lp'' (- 1) (- 1) [] ''Node value is empty.'')"
  by (simp add: getValue_def isToken_def)

text \<open>
  C5, as the code has it: \<^verbatim>\<open>getValueOfFirstChild<T>\<close> fails with a \<^verbatim>\<open>FileParseError\<close>
  that carries the node's file path, no invalid content and the message "Node does not
  have children." when the node has no child (the header throws it directly), and
  otherwise is \<^verbatim>\<open>getValue<T>\<close> of the child at index 0.
\<close>

theorem getValueOfFirstChild_cases:
  "(mChildren n = [] \<longrightarrow>
      getValueOfFirstChild stringToObject throwIfEmpty n =
        Inl (FileParseError (mFilePath n) (- 1) (- 1) [] ''Node does not have children.'')) \<and>
   (mChildren n \<noteq> [] \<longrightarrow>
      getValueOfFirstChild stringToObject throwIfEmpty n =
        getValue stringToObject throwIfEmpty (mChildren n ! 0))"
  by (simp add: getValueOfFirstChild_def)

theorem getValueOfFirstChild_cases_witness:
  "getValueOfFirstChild stringToObject_bool False (SExpression List ''locked'' [] ''b.lp'') =
     Inl (FileParseError ''b.lp'' (- 1) (- 1) [] ''Node does not have children.'') \<and>
   getValueOfFirstChild stringToObject_bool False
       (SExpression List ''locked'' [SExpression Token ''true'' [] ''b.lp''] ''b.lp'') =
     Inr True"
  using getValueOfFirstChild_cases [of "SExpression List ''locked'' [] ''b.lp''" stringToObject_bool False]
    getValueOfFirstChild_cases
      [of "SExpression List ''locked'' [SExpression Token ''true'' [] ''b.lp''] ''b.lp''"
          stringToObject_bool False]
  by (simp add: getValue_def isToken_def stringToObject_bool_def)

text \<open>
  C5, as the claim states it, fails: on the List \<^verbatim>\<open>(locked)\<close> of \<^verbatim>\<open>b.lp\<close>, which has
  no child, the caller does not receive a structure error of its own kind (a
  \<^verbatim>\<open>RuntimeError\<close> "Node does not have children.") but a \<^verbatim>\<open>FileParseError\<close>.
\<close>

theorem getValueOfFirstChild_cases_counterexample:
  "getValueOfFirstChild stringToObject_bool False (SExpression List ''locked'' [] ''b.lp'') \<noteq>
     Inl (RuntimeError ''Node does not have children.'') \<and>
   getValueOfFirstChild stringToObject_bool False (SExpression List ''locked'' [] ''b.lp'') =
     Inl (FileParseError ''b.lp'' (- 1) (- 1) [] ''Node does not have children.'') \<and>
   isFileParseError (FileParseError ''b.lp'' (- 1) (- 1) [] ''Node does not have children.'')"
  by (simp add: getValueOfFirstChild_def)

section \<open>Properties of the codec\<close>

text \<open>
  C6, as the code has it: the sentinel text deserializes to an absent optional, an absent
  optional serializes to the sentinel text, and a present value \<open>v\<close> comes back from
  its serialized text provided that text is not the sentinel and \<open>T\<close>'s own
  deserializer reads it back as \<open>v\<close>.
\<close>

theorem optional_codec_roundtrip:
  "stringToObject_optional deserializeFromString sRepresentationOfNull sRepresentationOfNull
     = Inr None \<and>
   objectToString_optional serializeToString sRepresentationOfNull None
     = sRepresentationOfNull \<and>
   (\<forall>v. serializeToString v \<noteq> sRepresentationOfNull \<longrightarrow>
        deserializeFromString (serializeToString v) = Inr v \<longrightarrow>
        stringToObject_optional deserializeFromString sRepresentationOfNull
          (objectToString_optional serializeToString sRepresentationOfNull (Some v))
        = Inr (Some v))"
  by (simp add: stringToObject_optional_def objectToString_optional_def)

theorem optional_codec_roundtrip_witness:
  "objectToString_bool True \<noteq> ''none'' \<and>
   stringToObject_bool (objectToString_bool True) = Inr True \<and>
   stringToObject_optional stringToObject_bool ''none'' ''none'' = Inr None \<and>
   objectToString_optional objectToString_bool ''none'' None = ''none'' \<and>
   stringToObject_optional stringToObject_bool ''none''
     (objectToString_optional objectToString_bool ''none'' (Some True)) = Inr (Some True)"
  using optional_codec_roundtrip [of stringToObject_bool "''none''" objectToString_bool]
  by (simp add: objectToString_bool_def stringToObject_bool_def)

text \<open>
  C6, as the claim states it, fails for a type whose serializer can produce the sentinel
  text. Take a type that is serialized as its own text (as \<^verbatim>\<open>QString\<close> is) with the
  sentinel "none": the present value "none" is written as "none" and read back as absent,
  although the type's own deserializer returns it unchanged.
\<close>

theorem optional_codec_roundtrip_counterexample:
  "stringToObject_QString (objectToString_QString ''none'') = Inr ''none'' \<and>
   stringToObject_optional stringToObject_QString ''none''
     (objectToString_optional objectToString_QString ''none'' (Some ''none''))
   \<noteq> Inr (Some ''none'')"
  by (simp add: stringToObject_optional_def objectToString_optional_def
      stringToObject_QString_def objectToString_QString_def)

text \<open>
  C7: \<^verbatim>\<open>stringToObject<bool>\<close> returns true exactly on "true", false exactly on
  "false", and throws the \<^verbatim>\<open>RuntimeError\<close> "Not a valid boolean." on every other text;
  \<^verbatim>\<open>objectToString<bool>\<close> writes "true" and "false".
\<close>

theorem bool_codec:
  "(stringToObject_bool s = Inr True \<longleftrightarrow> s = ''true'') \<and>
   (stringToObject_bool s = Inr False \<longleftrightarrow> s = ''false'') \<and>
   (s \<noteq> ''true'' \<and> s \<noteq> ''false'' \<longrightarrow>
      stringToObject_bool s = Inl (RuntimeError ''Not a valid boolean.'')) \<and>
   objectToString_bool True = ''true'' \<and>
   objectToString_bool False = ''false''"
  by (simp add: stringToObject_bool_def objectToString_bool_def)

theorem bool_codec_witness:
  "''maybe'' \<noteq> ''true'' \<and> ''maybe'' \<noteq> ''false'' \<and>
   stringToObject_bool ''maybe'' = Inl (RuntimeError ''Not a valid boolean.'')"
  using bool_codec [of "''maybe''"]
  by simp

text \<open>
  C9: on the sentinel text the optional deserializer returns absent whatever \<open>T\<close>'s own
  deserializer is. Its result at the sentinel is never looked at: when it would accept
  the sentinel as a present value \<open>v\<close>, the answer is still absent and not \<open>v\<close>.
\<close>

theorem optional_sentinel_priority:
  "stringToObject_optional deserializeFromString sRepresentationOfNull sRepresentationOfNull
     = Inr None \<and>
   (deserializeFromString sRepresentationOfNull = Inr v \<longrightarrow>
      stringToObject_optional deserializeFromString sRepresentationOfNull sRepresentationOfNull
        \<noteq> Inr (Some v))"
  by (simp add: stringToObject_optional_def)

theorem optional_sentinel_priority_witness:
  "stringToObject_QString ''none'' = Inr ''none'' \<and>
   stringToObject_optional stringToObject_QString ''none'' ''none'' = Inr None \<and>
   stringToObject_optional stringToObject_QString ''none'' ''none'' \<noteq> Inr (Some ''none'')"
  using optional_sentinel_priority [of stringToObject_QString "''none''" "''none''"]
  by (simp add: stringToObject_QString_def)

section \<open>Properties of the integer codec\<close>

lemma isDigit_digitChar: "d < 10 \<Longrightarrow> isDigit (digitChar d)"
  by (simp add: isDigit_def digitChar_def)

lemma digitValue_digitChar: "d < 10 \<Longrightarrow> digitValue (digitChar d) = d"
  by (simp add: digitValue_def digitChar_def)

lemma isDigit_not_space: "isDigit c \<Longrightarrow> \<not> isSpace c"
  by (auto simp: isDigit_def isSpace_def)

lemma digitsValue_append:
  "digitsValue acc (xs @ ys) =
     (case digitsValue acc xs of None \<Rightarrow> None | Some a \<Rightarrow> digitsValue a ys)"
  by (induction xs arbitrary: acc) auto

lemma digitsValue_Some_digits: "digitsValue acc s = Some m \<Longrightarrow> list_all isDigit s"
  by (induction s arbitrary: acc) (auto split: if_splits)

lemma decimal_nonempty: "decimal n \<noteq> []"
  by (subst decimal.simps) simp

lemma decimal_digits: "list_all isDigit (decimal n)"
  by (induction n rule: decimal.induct) (subst decimal.simps, simp add: isDigit_digitChar)

lemma hd_decimal_digit: "isDigit (hd (decimal n))"
  using decimal_digits [of n] decimal_nonempty [of n] by (cases "decimal n") auto

lemma last_decimal_digit: "isDigit (last (decimal n))"
  using decimal_digits [of n] decimal_nonempty [of n] by (simp add: list_all_iff)

text \<open>Reading the digits of \<open>n\<close> gives \<open>n\<close> back: one more digit is one Horner step.\<close>

lemma digitsValue_decimal: "digitsValue 0 (decimal n) = Some n"
proof (induction n rule: decimal.induct)
  case (1 n)
  show ?case
  proof (cases "n < 10")
    case True
    then show ?thesis
      by (subst decimal.simps) (simp add: isDigit_digitChar digitValue_digitChar)
  next
    case False
    with 1 have "digitsValue 0 (decimal (n div 10)) = Some (n div 10)" by simp
    with False show ?thesis
      by (subst decimal.simps)
        (simp add: digitsValue_append isDigit_digitChar digitValue_digitChar)
  qed
qed

lemma hd_decimal_zero: "hd (decimal n) = CHR ''0'' \<Longrightarrow> n = 0"
proof (induction n rule: decimal.induct)
  case (1 n)
  show ?case
  proof (cases "n < 10")
    case True
    with 1(2) have "digitChar n = CHR ''0''" by (subst (asm) decimal.simps) simp
    then have "digitValue (digitChar n) = 0" by (simp add: digitValue_def)
    with True show ?thesis by (simp add: digitValue_digitChar)
  next
    case False
    with 1(2) have "hd (decimal (n div 10)) = CHR ''0''"
      by (subst (asm) decimal.simps) (simp add: decimal_nonempty)
    with 1(1) False have "n div 10 = 0" by simp
    with False show ?thesis by simp
  qed
qed

lemma trimmed_id:
  assumes "s \<noteq> []" "\<not> isSpace (hd s)" "\<not> isSpace (last s)"
  shows "trimmed s = s"
proof -
  have keep: "dropWhile isSpace xs = xs" if "xs \<noteq> []" "\<not> isSpace (hd xs)" for xs
    using that by (cases xs) auto
  from assms(1,3) have "dropWhile isSpace (rev s) = rev s"
    by (intro keep) (simp_all add: hd_rev)
  with assms(1,2) show ?thesis
    by (simp add: trimmed_def keep)
qed

lemma set_trimmed:
  assumes "c \<in> set s" "\<not> isSpace c"
  shows "c \<in> set (trimmed s)"
proof -
  have keep: "c \<in> set (dropWhile isSpace xs)" if "c \<in> set xs" for xs
    using that assms(2) by (induction xs) auto
  from assms(1) have "c \<in> set (dropWhile isSpace s)" by (rule keep)
  then have "c \<in> set (rev (dropWhile isSpace s))" by simp
  then have "c \<in> set (dropWhile isSpace (rev (dropWhile isSpace s)))" by (rule keep)
  then show ?thesis by (simp add: trimmed_def)
qed

lemma parseInteger_QString_number: "parseInteger (QString_number v) = Some v"
proof (cases "v < 0")
  case True
  then show ?thesis
    by (simp add: QString_number_def parseInteger_def decimal_nonempty digitsValue_decimal)
next
  case False
  from hd_decimal_digit [of "nat v"]
  have "hd (decimal (nat v)) \<noteq> CHR ''-''" "hd (decimal (nat v)) \<noteq> CHR ''+''"
    by (auto simp: isDigit_def)
  with False show ?thesis
    using decimal_nonempty [of "nat v"] digitsValue_decimal [of "nat v"]
    by (cases "decimal (nat v)") (auto simp: QString_number_def parseInteger_def)
qed

lemma trimmed_QString_number: "trimmed (QString_number v) = QString_number v"
proof -
  have "\<not> isSpace (hd (decimal n))" for n
    using hd_decimal_digit by (rule isDigit_not_space)
  then have "\<not> isSpace (hd (QString_number v))"
    by (simp add: QString_number_def) (simp add: isSpace_def)
  moreover have "\<not> isSpace (last (QString_number v))"
    using last_decimal_digit
    by (auto simp: QString_number_def decimal_nonempty dest: isDigit_not_space)
  ultimately show ?thesis
    by (intro trimmed_id) (auto simp: QString_number_def decimal_nonempty)
qed

lemma QString_toInt_number: "QString_toInt (QString_number (sint w)) = (w, True)"
proof -
  have "- (2 ^ 31) \<le> sint w" "sint w \<le> 2 ^ 31 - 1"
    using sint_ge [of w] sint_lt [of w] by simp_all
  then show ?thesis
    by (simp add: QString_toInt_def trimmed_QString_number parseInteger_QString_number)
qed

lemma stringToObject_int_roundtrip: "stringToObject_int (objectToString_int w) = Inr w"
  by (simp add: stringToObject_int_def objectToString_int_def QString_toInt_number)

lemma QString_number_canonical: "isCanonicalBase10 v (QString_number v)"
  using hd_decimal_zero [of "nat \<bar>v\<bar>"]
  apply (auto simp: isCanonicalBase10_def QString_number_def decimal_nonempty decimal_digits
      digitsValue_decimal Let_def)
   apply (subst decimal.simps, simp add: digitChar_def char_of_eq_iff)+
  done

lemma stringToObject_int_canonical:
  assumes "isCanonicalBase10 v s" "- (2 ^ 31) \<le> v" "v \<le> 2 ^ 31 - 1"
  shows "stringToObject_int s = Inr (word_of_int v)"
proof -
  define ds where "ds = (if v < 0 then drop 1 s else s)"
  from assms(1) have ds: "ds \<noteq> []" "list_all isDigit ds" "digitsValue 0 ds = Some (nat \<bar>v\<bar>)"
    and sign: "v < 0 \<Longrightarrow> take 1 s = ''-''"
    by (simp_all add: isCanonicalBase10_def ds_def Let_def)
  have s: "s = (if v < 0 then CHR ''-'' # ds else ds)"
    using sign by (cases s) (auto simp: ds_def)
  have hd: "isDigit (hd ds)" and last: "isDigit (last ds)"
    using ds by (cases ds; auto simp: list_all_iff)+
  have "trimmed s = s"
    using hd last ds(1)
    by (intro trimmed_id) (auto simp: s isSpace_def dest: isDigit_not_space)
  moreover have "parseInteger s = Some v"
  proof (cases "v < 0")
    case True
    with ds show ?thesis by (simp add: s parseInteger_def)
  next
    case False
    from hd have "hd ds \<noteq> CHR ''-''" "hd ds \<noteq> CHR ''+''" by (auto simp: isDigit_def)
    with False ds show ?thesis by (cases ds) (auto simp: s parseInteger_def)
  qed
  ultimately show ?thesis
    using assms(2,3) by (simp add: stringToObject_int_def QString_toInt_def)
qed

lemma stringToObject_int_nonnumeric:
  assumes "c \<in> set s" "\<not> isDigit c" "\<not> isSpace c" "c \<noteq> CHR ''+''" "c \<noteq> CHR ''-''"
  shows "stringToObject_int s = Inl (RuntimeError ''Not a valid integer.'')"
proof -
  from assms(1,3) have c: "c \<in> set (trimmed s)" by (rule set_trimmed)
  have "parseInteger (trimmed s) = None"
  proof (rule ccontr)
    assume "parseInteger (trimmed s) \<noteq> None"
    then obtain v where v: "parseInteger (trimmed s) = Some v" by auto
    then obtain x xs where t: "trimmed s = x # xs"
      by (cases "trimmed s") (auto simp: parseInteger_def)
    from v t have "list_all isDigit xs"
      by (auto simp: parseInteger_def split: if_splits dest: digitsValue_Some_digits)
    moreover from v t have "x = CHR ''-'' \<or> x = CHR ''+'' \<or> isDigit x"
      by (auto simp: parseInteger_def split: if_splits)
    ultimately show False using c assms(2,4,5) by (auto simp: t list_all_iff)
  qed
  then show ?thesis by (simp add: stringToObject_int_def QString_toInt_def)
qed

lemma digitsValue_foldl:
  "digitsValue acc ds =
     (if list_all isDigit ds then Some (foldl (\<lambda>a c. 10 * a + digitValue c) acc ds) else None)"
  by (induction ds arbitrary: acc) simp_all

lemma parseInteger_tl_digits: "parseInteger t = Some v \<Longrightarrow> list_all isDigit (tl t)"
  by (cases t)
    (auto simp: parseInteger_def digitsValue_foldl split: if_splits)

text \<open>
  The text between the white space at both ends is the body when only white space
  follows the body; otherwise white space is left inside, which no integer text holds.
\<close>

lemma trimmed_body:
  assumes "list_all isSpace (dropWhile (\<lambda>c. \<not> isSpace c) (dropWhile isSpace s))"
  shows "trimmed s = integerTextBody s"
proof -
  let ?t = "dropWhile isSpace s"
  let ?body = "takeWhile (\<lambda>c. \<not> isSpace c) ?t"
  let ?rest = "dropWhile (\<lambda>c. \<not> isSpace c) ?t"
  have body: "\<not> isSpace x" if "x \<in> set (rev ?body)" for x
    using that unfolding set_rev by (rule set_takeWhileD [THEN conjunct2])
  have rest: "isSpace x" if "x \<in> set (rev ?rest)" for x
    using that assms unfolding set_rev list_all_iff by blast
  have keep: "dropWhile isSpace xs = xs" if "\<And>x. x \<in> set xs \<Longrightarrow> \<not> isSpace x" for xs
    using that by (cases xs) auto
  have "rev ?rest @ rev ?body = rev (?body @ ?rest)" by (simp only: rev_append)
  also have "\<dots> = rev ?t" by (simp only: takeWhile_dropWhile_id)
  finally have "dropWhile isSpace (rev ?t) = dropWhile isSpace (rev ?rest @ rev ?body)"
    by (simp only:)
  also have "\<dots> = dropWhile isSpace (rev ?body)"
    using rest by (rule dropWhile_append2)
  also have "\<dots> = rev ?body"
    using body by (rule keep)
  finally show ?thesis
    by (simp only: trimmed_def integerTextBody_def rev_rev_ident)
qed

lemma trimmed_inner_space:
  assumes "\<not> list_all isSpace (dropWhile (\<lambda>c. \<not> isSpace c) (dropWhile isSpace s))"
  shows "parseInteger (trimmed s) = None"
proof (rule ccontr)
  let ?t = "dropWhile isSpace s"
  let ?body = "takeWhile (\<lambda>c. \<not> isSpace c) ?t"
  let ?rest = "dropWhile (\<lambda>c. \<not> isSpace c) ?t"
  assume "parseInteger (trimmed s) \<noteq> None"
  then obtain v where "parseInteger (trimmed s) = Some v" by auto
  then have digits: "list_all isDigit (tl (trimmed s))" by (rule parseInteger_tl_digits)
  from assms obtain x where x: "x \<in> set ?rest" "\<not> isSpace x"
    unfolding list_all_iff by blast
  then have rest: "?rest \<noteq> []" by (auto simp del: dropWhile_eq_Nil_conv)
  then have "isSpace (hd ?rest)" using hd_dropWhile [of "\<lambda>c. \<not> isSpace c" ?t] by blast
  with rest obtain sp r where r: "?rest = sp # r" "isSpace sp" by (cases ?rest) auto
  with x have xr: "x \<in> set (rev r)" by (cases "x = sp") (simp_all only: set_rev list.set insert_iff, auto)
  from rest have "?t \<noteq> []" by (auto simp del: dropWhile_eq_Nil_conv)
  then have "\<not> isSpace (hd ?t)" using hd_dropWhile [of isSpace s] by blast
  with \<open>?t \<noteq> []\<close> have body: "?body \<noteq> []" by (cases ?t) auto
  have dec: "?body @ sp # r = ?t"
    using takeWhile_dropWhile_id [of "\<lambda>c. \<not> isSpace c" ?t] unfolding r(1) .
  have "rev r @ sp # rev ?body = rev (?body @ sp # r)" by simp
  also have "\<dots> = rev ?t" by (simp only: dec)
  finally have "dropWhile isSpace (rev ?t) = dropWhile isSpace (rev r @ sp # rev ?body)"
    by (simp only:)
  also have "\<dots> = dropWhile isSpace (rev r) @ sp # rev ?body"
    using xr x(2) by (rule dropWhile_append1)
  finally have "trimmed s = rev (dropWhile isSpace (rev r) @ sp # rev ?body)"
    by (simp only: trimmed_def)
  then have "trimmed s = ?body @ sp # rev (dropWhile isSpace (rev r))"
    by simp
  with body have "sp \<in> set (tl (trimmed s))" by (cases ?body) auto
  with digits have "isDigit sp" by (simp add: list_all_iff)
  with r(2) show False by (auto dest: isDigit_not_space)
qed

lemma parseInteger_body:
  "parseInteger (integerTextBody s) =
     (if integerTextDigits s \<noteq> [] \<and> list_all isDigit (integerTextDigits s)
      then Some (integerTextValue s) else None)"
proof (cases "integerTextBody s")
  case Nil
  then show ?thesis by (simp add: parseInteger_def integerTextDigits_def)
next
  case (Cons c cs)
  then show ?thesis
    by (auto simp: parseInteger_def integerTextDigits_def integerTextValue_def
        digitsValue_foldl Let_def)
qed

text \<open>The reader accepts exactly the valid integer texts, with their values.\<close>

lemma stringToObject_int_valid:
  "stringToObject_int s =
     (if isValidInteger s then Inr (word_of_int (integerTextValue s))
      else Inl (RuntimeError ''Not a valid integer.''))"
proof (cases "list_all isSpace (dropWhile (\<lambda>c. \<not> isSpace c) (dropWhile isSpace s))")
  case True
  then show ?thesis
    by (simp add: stringToObject_int_def QString_toInt_def trimmed_body parseInteger_body
        isValidInteger_def)
next
  case False
  then show ?thesis
    by (simp add: stringToObject_int_def QString_toInt_def trimmed_inner_space
        isValidInteger_def)
qed

lemma objectToString_int_minus7: "objectToString_int (- 7) = ''-7''"
  by (simp add: objectToString_int_def QString_number_def decimal.simps [of 7] digitChar_def
      char_of_eq_iff)

lemma stringToObject_int_42: "stringToObject_int ''42'' = Inr 42"
  by (simp add: stringToObject_int_def QString_toInt_def parseInteger_def trimmed_def
      isSpace_def isDigit_def digitValue_def)

lemma stringToObject_int_4a:
  "stringToObject_int ''4a'' = Inl (RuntimeError ''Not a valid integer.'')"
  by (simp add: stringToObject_int_def QString_toInt_def parseInteger_def trimmed_def
      isSpace_def isDigit_def digitValue_def)

lemma stringToObject_int_rejected:
  "stringToObject_int [] = Inl (RuntimeError ''Not a valid integer.'') \<and>
   stringToObject_int ''-'' = Inl (RuntimeError ''Not a valid integer.'') \<and>
   stringToObject_int ''4 2'' = Inl (RuntimeError ''Not a valid integer.'') \<and>
   stringToObject_int ''4-2'' = Inl (RuntimeError ''Not a valid integer.'') \<and>
   stringToObject_int ''2147483648'' = Inl (RuntimeError ''Not a valid integer.'')"
  by (simp add: stringToObject_int_def QString_toInt_def parseInteger_def trimmed_def
      isSpace_def isDigit_def digitValue_def)

lemma stringToObject_int_limits:
  "stringToObject_int ''-2147483648'' = Inr (- 2147483648) \<and>
   stringToObject_int ''2147483647'' = Inr 2147483647"
  by (simp add: stringToObject_int_def QString_toInt_def parseInteger_def trimmed_def
      isSpace_def isDigit_def digitValue_def)

text \<open>
  C8: \<^verbatim>\<open>objectToString<int>\<close> writes the canonical base-10 text of every \<^verbatim>\<open>int\<close>
  (so -7 is written "-7"). \<^verbatim>\<open>stringToObject<int>\<close> reads every written number back,
  reads the canonical base-10 text of an \<^verbatim>\<open>int\<close> as that number (so "42" is read as
  42) and, more generally, every valid integer text as its value. Every text that is
  not a valid integer fails with the \<^verbatim>\<open>RuntimeError\<close> "Not a valid integer.": a text
  with a character that is neither a digit, a sign nor white space (such as "4a"), the
  empty text, a sign alone, digits with white space or a sign between them, and a
  number beyond the range of \<^verbatim>\<open>int\<close>.
\<close>

theorem int_codec:
  "isCanonicalBase10 (sint n) (objectToString_int n) \<and>
   stringToObject_int (objectToString_int n) = Inr n \<and>
   (isCanonicalBase10 v s \<and> - (2 ^ 31) \<le> v \<and> v \<le> 2 ^ 31 - 1 \<longrightarrow>
      stringToObject_int s = Inr (word_of_int v)) \<and>
   (isValidInteger s' \<longrightarrow> stringToObject_int s' = Inr (word_of_int (integerTextValue s'))) \<and>
   (\<not> isValidInteger s' \<longrightarrow>
      stringToObject_int s' = Inl (RuntimeError ''Not a valid integer.'')) \<and>
   ((\<exists>c \<in> set s'. \<not> isDigit c \<and> \<not> isSpace c \<and> c \<noteq> CHR ''+'' \<and> c \<noteq> CHR ''-'') \<longrightarrow>
      stringToObject_int s' = Inl (RuntimeError ''Not a valid integer.'')) \<and>
   objectToString_int (- 7) = ''-7'' \<and>
   stringToObject_int ''42'' = Inr 42 \<and>
   stringToObject_int ''4a'' = Inl (RuntimeError ''Not a valid integer.'') \<and>
   stringToObject_int [] = Inl (RuntimeError ''Not a valid integer.'') \<and>
   stringToObject_int ''-'' = Inl (RuntimeError ''Not a valid integer.'') \<and>
   stringToObject_int ''4 2'' = Inl (RuntimeError ''Not a valid integer.'') \<and>
   stringToObject_int ''4-2'' = Inl (RuntimeError ''Not a valid integer.'') \<and>
   stringToObject_int ''2147483648'' = Inl (RuntimeError ''Not a valid integer.'') \<and>
   stringToObject_int ''-2147483648'' = Inr (- 2147483648) \<and>
   stringToObject_int ''2147483647'' = Inr 2147483647"
proof -
  have "isCanonicalBase10 (sint n) (objectToString_int n)"
    by (simp add: objectToString_int_def QString_number_canonical)
  moreover have "isCanonicalBase10 v s \<and> - (2 ^ 31) \<le> v \<and> v \<le> 2 ^ 31 - 1 \<longrightarrow>
      stringToObject_int s = Inr (word_of_int v)"
    using stringToObject_int_canonical [of v s] by blast
  moreover have "isValidInteger s' \<longrightarrow>
      stringToObject_int s' = Inr (word_of_int (integerTextValue s'))"
    by (simp add: stringToObject_int_valid)
  moreover have "\<not> isValidInteger s' \<longrightarrow>
      stringToObject_int s' = Inl (RuntimeError ''Not a valid integer.'')"
    by (simp add: stringToObject_int_valid)
  moreover have "(\<exists>c \<in> set s'. \<not> isDigit c \<and> \<not> isSpace c \<and> c \<noteq> CHR ''+'' \<and> c \<noteq> CHR ''-'') \<longrightarrow>
      stringToObject_int s' = Inl (RuntimeError ''Not a valid integer.'')"
    using stringToObject_int_nonnumeric [of _ s'] by blast
  ultimately show ?thesis
    using stringToObject_int_roundtrip [of n] objectToString_int_minus7 stringToObject_int_42
      stringToObject_int_4a stringToObject_int_rejected stringToObject_int_limits
    by blast
qed

theorem int_codec_witness:
  "isCanonicalBase10 42 ''42'' \<and> - (2 ^ 31) \<le> (42 :: int) \<and> (42 :: int) \<le> 2 ^ 31 - 1 \<and>
   stringToObject_int ''42'' = Inr (word_of_int 42) \<and>
   isValidInteger ''  +42 '' \<and>
   stringToObject_int ''  +42 '' = Inr (word_of_int (integerTextValue ''  +42 '')) \<and>
   integerTextValue ''  +42 '' = 42 \<and>
   \<not> isValidInteger ''4a'' \<and>
   (\<exists>c \<in> set ''4a''. \<not> isDigit c \<and> \<not> isSpace c \<and> c \<noteq> CHR ''+'' \<and> c \<noteq> CHR ''-'') \<and>
   stringToObject_int ''4a'' = Inl (RuntimeError ''Not a valid integer.'') \<and>
   isCanonicalBase10 (sint (- 7 :: 32 word)) (objectToString_int (- 7)) \<and>
   stringToObject_int (objectToString_int (- 7)) = Inr (- 7)"
proof -
  have c: "isCanonicalBase10 42 ''42''"
    by (simp add: isCanonicalBase10_def isDigit_def digitValue_def)
  have r: "- (2 ^ 31) \<le> (42 :: int)" "(42 :: int) \<le> 2 ^ 31 - 1"
    by simp_all
  have v: "isValidInteger ''  +42 ''" "integerTextValue ''  +42 '' = 42"
    by (simp_all add: isValidInteger_def integerTextValue_def integerTextDigits_def
        integerTextBody_def isSpace_def isDigit_def digitValue_def)
  have i: "\<not> isValidInteger ''4a''"
    by (simp add: isValidInteger_def integerTextValue_def integerTextDigits_def
        integerTextBody_def isSpace_def isDigit_def digitValue_def)
  have e: "\<exists>c \<in> set ''4a''. \<not> isDigit c \<and> \<not> isSpace c \<and> c \<noteq> CHR ''+'' \<and> c \<noteq> CHR ''-''"
    by (simp add: isDigit_def isSpace_def)
  from c r v i e int_codec [of "- 7" 42 "''42''" "''  +42 ''"]
    int_codec [of "- 7" 42 "''42''" "''4a''"]
  show ?thesis
    by blast
qed

section \<open>Properties of the append methods\<close>

lemma appendChild_not_list:
  "\<not> isList n \<Longrightarrow> appendChild child linebreak n = Inl (RuntimeError ''Node is not a list.'')"
  by (simp add: appendChild_def)

text \<open>
  A node that is not a List holds no children: every append method fails on it and
  returns no updated node.
\<close>

lemma append_not_list:
  "\<not> isList n \<Longrightarrow>
   appendToken objectToString v n = Inl (RuntimeError ''Node is not a list.'') \<and>
   appendString objectToString v n = Inl (RuntimeError ''Node is not a list.'') \<and>
   appendList name linebreak n = Inl (RuntimeError ''Node is not a list.'')"
  by (simp add: appendToken_def appendString_def appendList_def appendChild_not_list)



section \<open>Rendering and parsing again\<close>

lemma scanFrom_Cons:
  "scanFrom s (c # cs) = (case step c s of None \<Rightarrow> None | Some s' \<Rightarrow> scanFrom s' cs)"
  by (simp add: scanFrom_def split: option.splits)

lemma scanFrom_spaces:
  "list_all isSpace ws \<Longrightarrow> scanFrom (Idle, cur, st) (ws @ rest) = scanFrom (Idle, cur, st) rest"
  by (induction ws) (simp_all add: scanFrom_Cons stepIdle_def)

lemma scanFrom_token_chars:
  "list_all isTokenChar t \<Longrightarrow>
   scanFrom (InToken a, cur, st) (t @ rest) = scanFrom (InToken (a @ t), cur, st) rest"
  by (induction t arbitrary: a) (simp_all add: scanFrom_Cons)

lemma scanFrom_token_end:
  assumes "delimStart rest"
  shows "scanFrom (InToken t, cur, st) rest = scanFrom (Idle, Leaf False t # cur, st) rest"
proof (cases rest)
  case Nil
  then show ?thesis by (cases st) (simp_all add: scanFrom_def)
next
  case (Cons c cs)
  with assms have "\<not> isTokenChar c" by (simp add: delimStart_def)
  with Cons show ?thesis by (simp add: scanFrom_Cons)
qed

lemma scanFrom_token:
  assumes "t \<noteq> []" "list_all isTokenChar t" "delimStart rest"
  shows "scanFrom (Idle, cur, st) (t @ rest) = scanFrom (Idle, Leaf False t # cur, st) rest"
proof -
  from assms(1) obtain c t' where t: "t = c # t'" by (cases t) auto
  with assms(2) have c: "isTokenChar c" and t': "list_all isTokenChar t'" by simp_all
  from c have "step c (Idle, cur, st) = Some (InToken [c], cur, st)"
    by (simp add: stepIdle_def isTokenChar_def)
  then have "scanFrom (Idle, cur, st) (t @ rest) = scanFrom (InToken [c], cur, st) (t' @ rest)"
    by (simp add: t scanFrom_Cons)
  also have "\<dots> = scanFrom (InToken t, cur, st) rest"
    using t' by (simp add: scanFrom_token_chars t)
  finally show ?thesis
    using assms(3) by (simp add: scanFrom_token_end)
qed

lemma hexValue_hexDigit: "d < 16 \<Longrightarrow> hexValue (hexDigit d) = Some d"
  by (simp add: hexValue_def hexDigit_def isDigit_def)

lemma hex_code: "char_of (16 * ((of_char c :: nat) div 16) + (of_char c :: nat) mod 16) = c"
  by simp

lemma hex_high: "(of_char c :: nat) div 16 < 16"
proof -
  have "(of_char c :: nat) < 256" by simp
  then show ?thesis by arith
qed

text \<open>
  The escaped text holds no control character, no double quote outside an escape and
  no backslash that does not start an escape: the scanner reads it back character by
  character.
\<close>

lemma escapeString_no_control: "list_all (\<lambda>c. \<not> isControl c) (escapeString s)"
proof (induction s)
  case Nil
  show ?case by simp
next
  case (Cons c s)
  have "\<not> isControl (hexDigit d)" if "d < 16" for d
    using that by (simp add: isControl_def hexDigit_def)
  with Cons show ?case
    by (simp add: hex_high) (simp add: isControl_def)
qed

lemma scanFrom_string_chars:
  "scanFrom (InString a, cur, st) (escapeString s @ rest) = scanFrom (InString (a @ s), cur, st) rest"
  by (induction s arbitrary: a)
    (simp_all add: scanFrom_Cons hexValue_hexDigit hex_high hex_code del: of_char_mod_256)

lemma scanFrom_string:
  "scanFrom (Idle, cur, st) (CHR 0x22 # escapeString s @ CHR 0x22 # rest)
     = scanFrom (Idle, Leaf True s # cur, st) rest"
  by (simp add: scanFrom_Cons stepIdle_def isSpace_def scanFrom_string_chars)

lemma lineStart_spaces: "list_all isSpace (lineStart indent p)"
  by (cases p) (simp_all add: isSpace_def list_all_iff)

lemma delimStart_spaces: "list_all isSpace ws \<Longrightarrow> delimStart rest \<Longrightarrow> delimStart (ws @ rest)"
  by (cases ws) (simp_all add: delimStart_def isTokenChar_def)

lemma delimStart_close: "delimStart (CHR '')'' # rest)"
  by (simp add: delimStart_def isTokenChar_def)

lemma delimStart_layout: "delimStart (layout indent p items @ CHR '')'' # rest)"
proof (induction items arbitrary: p)
  case Nil
  show ?case by (simp add: delimStart_spaces lineStart_spaces delimStart_close)
next
  case (Cons item items)
  obtain isBreak str where item: "item = (isBreak, str)" by (cases item)
  show ?case
  proof (cases isBreak)
    case True
    with Cons show ?thesis by (simp add: item)
  next
    case False
    then show ?thesis
      by (cases p) (simp_all add: item delimStart_def isTokenChar_def isSpace_def)
  qed
qed

text \<open>
  The children of a list, laid out: whatever the layout puts before a child is white
  space, so the scanner arrives at each child between atoms, reads it as the lemma for
  single nodes says (the assumption), and skips the LineBreak markers, which have no
  text of their own.
\<close>

lemma scanFrom_children:
  assumes each: "\<And>c rest cur. c \<in> set cs \<Longrightarrow> \<not> isLineBreak c \<Longrightarrow> delimStart rest \<Longrightarrow>
      scanFrom (Idle, cur, st) (render c @ rest) = scanFrom (Idle, h c # cur, st) rest"
  shows "scanFrom (Idle, cur, st)
           (layout indent p (map (\<lambda>c. (isLineBreak c, render c)) cs) @ CHR '')'' # rest)
         = scanFrom (Idle, rev (map h (filter (\<lambda>c. \<not> isLineBreak c) cs)) @ cur, st)
             (CHR '')'' # rest)"
  using each
proof (induction cs arbitrary: p cur)
  case Nil
  show ?case by (simp add: scanFrom_spaces lineStart_spaces)
next
  case (Cons c cs)
  show ?case
  proof (cases "isLineBreak c")
    case True
    with Cons show ?thesis by simp
  next
    case False
    let ?tail = "layout indent NoBreak (map (\<lambda>c. (isLineBreak c, render c)) cs) @ CHR '')'' # rest"
    let ?ws = "if p = NoBreak then '' '' else lineStart indent p"
    have ws: "list_all isSpace ?ws"
      by (simp add: lineStart_spaces) (simp add: isSpace_def)
    have "scanFrom (Idle, cur, st)
            (layout indent p (map (\<lambda>c. (isLineBreak c, render c)) (c # cs)) @ CHR '')'' # rest)
          = scanFrom (Idle, cur, st) (?ws @ (render c @ ?tail))"
      using False by simp
    also have "\<dots> = scanFrom (Idle, cur, st) (render c @ ?tail)"
      using ws by (rule scanFrom_spaces)
    also have "\<dots> = scanFrom (Idle, h c # cur, st) ?tail"
      using False by (intro Cons.prems) (simp_all add: delimStart_layout)
    also have "\<dots> = scanFrom (Idle, rev (map h (filter (\<lambda>c. \<not> isLineBreak c) cs)) @ h c # cur, st)
                       (CHR '')'' # rest)"
      by (rule Cons.IH) (simp add: Cons.prems)
    finally show ?thesis using False by simp
  qed
qed

text \<open>
  A rendered node, followed by a text at which a bare token ends, is read as the one
  generic tree that the node without its LineBreak markers stands for.
\<close>

lemma scanFrom_node:
  "isWellFormed T \<Longrightarrow> \<not> isLineBreak T \<Longrightarrow> delimStart rest \<Longrightarrow>
   scanFrom (Idle, cur, st) (toString indent T @ rest)
     = scanFrom (Idle, toSexp (removeLineBreaks T) # cur, st) rest"
proof (induction T arbitrary: indent rest cur st)
  case (SExpression t v cs fp)
  show ?case
  proof (cases t)
    case Token
    with SExpression.prems show ?thesis
      by (simp add: isValidToken_def scanFrom_token)
  next
    case String
    with SExpression.prems show ?thesis
      by (simp add: scanFrom_string)
  next
    case LineBreak
    with SExpression.prems show ?thesis by (simp add: isLineBreak_def)
  next
    case List
    let ?items = "map (\<lambda>c. (isLineBreak c, toString (Suc indent) c)) cs"
    let ?kept = "filter (\<lambda>c. \<not> isLineBreak c) cs"
    from SExpression.prems List have name: "v \<noteq> []" "list_all isTokenChar v"
      and wf: "\<And>c. c \<in> set cs \<Longrightarrow> isWellFormed c"
      by (simp_all add: isValidListName_def list_all_iff)
    have "scanFrom (Idle, cur, st) (toString indent (SExpression t v cs fp) @ rest)
          = scanFrom (Idle, [], cur # st) (v @ (layout indent NoBreak ?items @ CHR '')'' # rest))"
      by (simp add: List scanFrom_Cons stepIdle_def isSpace_def)
    also have "\<dots> = scanFrom (Idle, [Leaf False v], cur # st)
                       (layout indent NoBreak ?items @ CHR '')'' # rest)"
      using name by (intro scanFrom_token) (simp_all add: delimStart_layout)
    also have "\<dots> = scanFrom (Idle, rev (map (\<lambda>c. toSexp (removeLineBreaks c)) ?kept) @ [Leaf False v], cur # st)
                       (CHR '')'' # rest)"
      by (rule scanFrom_children) (simp add: SExpression.IH wf)
    also have "\<dots> = scanFrom (Idle, Form (Leaf False v # map (\<lambda>c. toSexp (removeLineBreaks c)) ?kept) # cur, st) rest"
      by (simp add: scanFrom_Cons stepIdle_def isSpace_def)
    finally show ?thesis by (simp add: List comp_def)
  qed
qed

lemma sexpresso_parse_toString:
  assumes "isWellFormed T" "\<not> isLineBreak T"
  shows "sexpresso_parse (toString indent T) = Some [toSexp (removeLineBreaks T)]"
proof -
  have "scanFrom (Idle, [], []) (toString indent T @ [])
        = scanFrom (Idle, [toSexp (removeLineBreaks T)], []) []"
    using assms by (intro scanFrom_node) (simp_all add: delimStart_def)
  then show ?thesis by (simp add: sexpresso_parse_def scanFrom_def)
qed

lemma fromSexps_map:
  assumes "\<And>c. c \<in> set cs \<Longrightarrow> fromSexp filePath (g c) = Some (k c)"
  shows "fromSexps filePath (map g cs) = Some (map k cs)"
  using assms by (induction cs) simp_all

lemma fromSexp_toSexp:
  "isWellFormed T \<Longrightarrow> \<not> isLineBreak T \<Longrightarrow>
   fromSexp filePath (toSexp (removeLineBreaks T)) = Some (withFilePath filePath (removeLineBreaks T))"
proof (induction T)
  case (SExpression t v cs fp)
  show ?case
  proof (cases t)
    case List
    let ?kept = "filter (\<lambda>c. \<not> isLineBreak c) cs"
    have "fromSexps filePath (map (\<lambda>c. toSexp (removeLineBreaks c)) ?kept)
          = Some (map (\<lambda>c. withFilePath filePath (removeLineBreaks c)) ?kept)"
      using SExpression.prems List
      by (intro fromSexps_map) (simp add: SExpression.IH list_all_iff)
    then show ?thesis by (simp add: List comp_def)
  next
    case Token
    with SExpression.prems show ?thesis by simp
  next
    case String
    with SExpression.prems show ?thesis by simp
  next
    case LineBreak
    with SExpression.prems show ?thesis by (simp add: isLineBreak_def)
  qed
qed

text \<open>
  The canonical form: the rendered text of a well-formed tree, with or without LineBreak
  markers, parses to the tree without its LineBreak markers, stamped with the file path.
\<close>

lemma parse_toString_canonical:
  assumes "isWellFormed T" "\<not> isLineBreak T"
  shows "parse (toString indent T) filePath = Inr (withFilePath filePath (removeLineBreaks T))"
  using assms by (simp add: parse_def sexpresso_parse_toString fromSexp_toSexp)

lemma deepEquals_withFilePath: "deepEquals (withFilePath filePath T) T"
proof (induction T)
  case (SExpression t v cs fp)
  then have "list_all2 deepEquals (map (withFilePath filePath) cs) cs"
    by (simp add: list_all2_map1 list_all2_same)
  then show ?case by simp
qed

lemma removeLineBreaks_id: "hasNoLineBreak T \<Longrightarrow> removeLineBreaks T = T"
proof (induction T)
  case (SExpression t v cs fp)
  then have all: "\<And>c. c \<in> set cs \<Longrightarrow> hasNoLineBreak c" by (simp add: list_all_iff)
  then have "\<And>c. c \<in> set cs \<Longrightarrow> \<not> isLineBreak c"
    by (metis hasNoLineBreak.simps isLineBreak_def SExpression.collapse)
  then have "filter (\<lambda>c. \<not> isLineBreak c) cs = cs" by (simp add: filter_id_conv)
  moreover have "map removeLineBreaks cs = cs"
    using SExpression.IH all by (simp add: map_idI)
  ultimately show ?case by simp
qed

lemma hasNoLineBreak_root: "hasNoLineBreak T \<Longrightarrow> \<not> isLineBreak T"
  by (cases T) (simp add: isLineBreak_def)

text \<open>
  The example of the spec for the layout: the children Token x, LineBreak, Token y are
  rendered on two lines, and on one line once the LineBreak is removed.
\<close>

lemma toString_multiline_example:
  "toString 0 (SExpression List ''root''
       [SExpression Token ''x'' [] [], SExpression LineBreak [] [] [], SExpression Token ''y'' [] []] [])
     = ''(root x'' @ [CHR 0x0A] @ '' y)'' \<and>
   toString 0 (removeLineBreaks (SExpression List ''root''
       [SExpression Token ''x'' [] [], SExpression LineBreak [] [] [], SExpression Token ''y'' [] []] []))
     = ''(root x y)''"
  by (simp add: isLineBreak_def)

text \<open>
  C1: for every tree built only from List, Token and String nodes, these being the
  nodes of the data model (only List nodes have children, each List name and each
  Token text is non-empty and free of white space, parentheses and double quotes; a
  String holds any text), parsing the rendered text succeeds, at every indentation,
  and yields the same tree stamped with the file path, which deep-equals the tree.
\<close>

theorem parse_toString_roundtrip:
  assumes "isWellFormed T" "hasNoLineBreak T"
  shows "parse (toString indent T) filePath = Inr (withFilePath filePath T) \<and>
         deepEquals (withFilePath filePath T) T"
proof -
  from assms(2) have "\<not> isLineBreak T" by (rule hasNoLineBreak_root)
  with assms(1) have "parse (toString indent T) filePath
      = Inr (withFilePath filePath (removeLineBreaks T))"
    by (rule parse_toString_canonical)
  with assms(2) show ?thesis
    by (simp add: removeLineBreaks_id deepEquals_withFilePath)
qed

theorem parse_toString_roundtrip_witness:
  "isWellFormed (SExpression List ''pad''
      [SExpression List ''pos'' [SExpression Token ''-1.5'' [] []] [],
       SExpression String [CHR ''a'', CHR 0x22, CHR 0x5C, CHR 0x0A, CHR 0x09, CHR 0x7F, CHR '' '', CHR ''(''] [] []] []) \<and>
   hasNoLineBreak (SExpression List ''pad''
      [SExpression List ''pos'' [SExpression Token ''-1.5'' [] []] [],
       SExpression String [CHR ''a'', CHR 0x22, CHR 0x5C, CHR 0x0A, CHR 0x09, CHR 0x7F, CHR '' '', CHR ''(''] [] []] []) \<and>
   parse (toString 0 (SExpression List ''pad''
      [SExpression List ''pos'' [SExpression Token ''-1.5'' [] []] [],
       SExpression String [CHR ''a'', CHR 0x22, CHR 0x5C, CHR 0x0A, CHR 0x09, CHR 0x7F, CHR '' '', CHR ''(''] [] []] [])) ''fpt.lp''
     = Inr (SExpression List ''pad''
      [SExpression List ''pos'' [SExpression Token ''-1.5'' [] ''fpt.lp''] ''fpt.lp'',
       SExpression String [CHR ''a'', CHR 0x22, CHR 0x5C, CHR 0x0A, CHR 0x09, CHR 0x7F, CHR '' '', CHR ''(''] [] ''fpt.lp''] ''fpt.lp'')"
  using parse_toString_roundtrip [of "SExpression List ''pad''
      [SExpression List ''pos'' [SExpression Token ''-1.5'' [] []] [],
       SExpression String [CHR ''a'', CHR 0x22, CHR 0x5C, CHR 0x0A, CHR 0x09, CHR 0x7F, CHR '' '', CHR ''(''] [] []] []" 0 "''fpt.lp''"]
  by (simp add: isValidListName_def isValidToken_def isTokenChar_def isSpace_def)

end
